theory Spec2Isabelle
  imports Complex_Main
begin

section \<open>The git-grep agent of \<^verbatim>\<open>pr_agent/git_grep_agent.py\<close>\<close>

text \<open>
  The agent runs \<^verbatim>\<open>git grep -n <query>\<close>, parses every output line into a
  pair (file path, matched line), and builds one \<^verbatim>\<open>CodeSection\<close> per file, enriched
  with the names of the classes and functions the file defines.

  Everything outside the Python source is a parameter of the model: the sub-process, the
  file system and \<^verbatim>\<open>ast.parse\<close> are fields of an environment record, each returning
  either the exception it raises or its value.
\<close>

subsection \<open>Python values\<close>

text \<open>
  A Python \<^verbatim>\<open>str\<close> is a sequence of Unicode code points; a code point is a natural
  number. \<open>str\<close> turns an Isabelle string literal into such a sequence.
\<close>

type_synonym pystr = "nat list"

definition str :: "string \<Rightarrow> pystr" where
  "str s = map of_char s"

text \<open>The values a turn can meet where the source is untyped: \<^verbatim>\<open>None\<close> or a string.\<close>

datatype pyval = PyNone | PyStr pystr

text \<open>The exceptions the source can meet.\<close>

datatype py_error =
    TypeError
  | ValueError
  | OSError
  | UnicodeDecodeError
  | SyntaxError
  | ValidationError

subsection \<open>Data model (lines 13--39)\<close>

record CodeSection =
  search_result :: pystr
  file_path :: pystr
  included_defs :: "pystr list"
  similarity_score :: real

record CodeSections =
  sections :: "CodeSection list"
  search_query :: pystr

text \<open>
  \<^verbatim>\<open>CodeSections(sections=..., search_query=...)\<close> validates its arguments: the field
  \<^verbatim>\<open>search_query: str\<close> is required and not optional, so \<^verbatim>\<open>None\<close> is refused with a
  \<^verbatim>\<open>ValidationError\<close>.
\<close>

definition new_CodeSections :: "CodeSection list \<Rightarrow> pyval \<Rightarrow> py_error + CodeSections" where
  "new_CodeSections secs q =
     (case q of
        PyNone \<Rightarrow> Inl ValidationError
      | PyStr s \<Rightarrow> Inr \<lparr>sections = secs, search_query = s\<rparr>)"

subsection \<open>The environment\<close>

text \<open>What \<^verbatim>\<open>subprocess.run(..., capture_output=True, text=True, check=False)\<close> returns.\<close>

record CompletedProcess =
  returncode :: int
  stdout :: pystr
  stderr :: pystr

text \<open>
  The syntax tree of \<^verbatim>\<open>ast\<close>, as far as the source looks at it: the class of a
  statement node, the name of a definition, and the statements nested in its body.
  \<open>OtherStmt\<close> stands for every other statement class (assignments, imports,
  \<^verbatim>\<open>if\<close>, \<^verbatim>\<open>for\<close>, \<^verbatim>\<open>with\<close>, ...).
\<close>

datatype stmt =
    FunctionDef (name: pystr) (body: "stmt list")
  | AsyncFunctionDef (name: pystr) (body: "stmt list")
  | ClassDef (name: pystr) (body: "stmt list")
  | OtherStmt (body: "stmt list")

record env =
  git_grep :: "pystr \<Rightarrow> py_error + CompletedProcess"
  open_read :: "pystr \<Rightarrow> py_error + pystr"
  ast_parse :: "pystr \<Rightarrow> py_error + stmt list"

text \<open>
  \<open>git_grep e q\<close> is \<^verbatim>\<open>subprocess.run(["git", "grep", "-n", q], ...)\<close> for a string
  \<open>q\<close>; \<open>open_read e p\<close> is \<^verbatim>\<open>open(p)\<close> followed by \<^verbatim>\<open>file.read()\<close>;
  \<open>ast_parse e src\<close> is \<^verbatim>\<open>ast.parse(src).body\<close>. The environment does not change
  during a turn.

  An argument list holding \<^verbatim>\<open>None\<close> makes \<^verbatim>\<open>subprocess.run\<close> raise
  \<^verbatim>\<open>TypeError\<close> before any process is started.
\<close>

definition subprocess_run :: "env \<Rightarrow> pyval \<Rightarrow> py_error + CompletedProcess" where
  "subprocess_run e query =
     (case query of
        PyNone \<Rightarrow> Inl TypeError
      | PyStr q \<Rightarrow> git_grep e q)"

subsection \<open>String operations of the Python library\<close>

text \<open>
  \<^verbatim>\<open>str.splitlines()\<close>: a line ends at any of the line boundaries below; a carriage
  return followed by a line feed is one boundary; the boundaries are not kept; no empty
  line is added after a final boundary. \<open>cur\<close> is the line read so far.
\<close>

definition is_linebreak :: "nat \<Rightarrow> bool" where
  "is_linebreak c \<longleftrightarrow> c \<in> set [10, 11, 12, 13, 28, 29, 30, 133, 8232, 8233]"

fun splitlines_from :: "pystr \<Rightarrow> pystr \<Rightarrow> pystr list" where
  "splitlines_from cur [] = (if cur = [] then [] else [cur])"
| "splitlines_from cur [c] = (if is_linebreak c then [cur] else [cur @ [c]])"
| "splitlines_from cur (c # d # s) =
     (if c = 13 \<and> d = 10 then cur # splitlines_from [] s
      else if is_linebreak c then cur # splitlines_from [] (d # s)
      else splitlines_from (cur @ [c]) (d # s))"

definition splitlines :: "pystr \<Rightarrow> pystr list" where
  "splitlines s = splitlines_from [] s"

text \<open>
  \<^verbatim>\<open>s.split(sep, maxsplit)\<close> for a separator of one code point: at most
  \<open>maxsplit\<close> splits are made, from the left, and the rest of the string is the last
  element.
\<close>

fun split :: "nat \<Rightarrow> nat \<Rightarrow> pystr \<Rightarrow> pystr list" where
  "split sep 0 s = [s]"
| "split sep (Suc k) s =
     (if sep \<in> set s
      then takeWhile (\<lambda>c. c \<noteq> sep) s # split sep k (tl (dropWhile (\<lambda>c. c \<noteq> sep) s))
      else [s])"

text \<open>\<^verbatim>\<open>s.endswith(suffix)\<close>.\<close>

definition endswith :: "pystr \<Rightarrow> pystr \<Rightarrow> bool" where
  "endswith s suffix \<longleftrightarrow>
     length suffix \<le> length s \<and> drop (length s - length suffix) s = suffix"

subsection \<open>\<^verbatim>\<open>run_git_grep\<close> (lines 60--88)\<close>

text \<open>
  The unpacking \<^verbatim>\<open>file_path, line_number, matched_line = parts\<close> raises
  \<^verbatim>\<open>ValueError\<close> unless \<open>parts\<close> has exactly three elements.
\<close>

definition unpack3 :: "pystr list \<Rightarrow> py_error + (pystr \<times> pystr \<times> pystr)" where
  "unpack3 parts =
     (case parts of
        [a, b, c] \<Rightarrow> Inr (a, b, c)
      | _ \<Rightarrow> Inl ValueError)"

text \<open>The \<^verbatim>\<open>for\<close> loop of lines 78--84; \<open>matches\<close> is the list built so far.\<close>

fun parse_lines :: "pystr list \<Rightarrow> (pystr \<times> pystr) list \<Rightarrow> py_error + (pystr \<times> pystr) list" where
  "parse_lines [] matches = Inr matches"
| "parse_lines (line # rest) matches =
     (if line = [] then parse_lines rest matches
      else
        let parts = split 58 2 line in
        if length parts \<ge> 3 then
          (case unpack3 parts of
             Inl err \<Rightarrow> Inl err
           | Inr (path, line_number, matched_line) \<Rightarrow>
               parse_lines rest (matches @ [(path, matched_line)]))
        else parse_lines rest matches)"

text \<open>The body of the \<^verbatim>\<open>try\<close> block.\<close>

definition run_git_grep_try :: "env \<Rightarrow> pyval \<Rightarrow> py_error + (pystr \<times> pystr) list" where
  "run_git_grep_try e query =
     (case subprocess_run e query of
        Inl err \<Rightarrow> Inl err
      | Inr result \<Rightarrow> parse_lines (splitlines (stdout result)) [])"

text \<open>
  \<^verbatim>\<open>except Exception\<close> turns every exception of the body into the empty list (the
  message it prints is not modelled). The result keeps the sum type, so that "does not
  raise" is a statement about the function and not about its type.
\<close>

definition run_git_grep :: "env \<Rightarrow> pyval \<Rightarrow> py_error + (pystr \<times> pystr) list" where
  "run_git_grep e query =
     (case run_git_grep_try e query of
        Inl err \<Rightarrow> Inr []
      | Inr matches \<Rightarrow> Inr matches)"

subsection \<open>\<^verbatim>\<open>next_turn\<close> (lines 93--141)\<close>

text \<open>What the turn does to the outside world while it extracts definitions.\<close>

datatype io_event = Open pystr | Parse pystr

text \<open>
  \<^verbatim>\<open>isinstance(n, ast.ClassDef)\<close> and \<^verbatim>\<open>isinstance(n, ast.FunctionDef)\<close>.
  \<^verbatim>\<open>ast.AsyncFunctionDef\<close> is a class of its own, not a subclass of
  \<^verbatim>\<open>ast.FunctionDef\<close>.
\<close>

fun isinstance_ClassDef :: "stmt \<Rightarrow> bool" where
  "isinstance_ClassDef (ClassDef nm b) = True"
| "isinstance_ClassDef _ = False"

fun isinstance_FunctionDef :: "stmt \<Rightarrow> bool" where
  "isinstance_FunctionDef (FunctionDef nm b) = True"
| "isinstance_FunctionDef _ = False"

text \<open>
  The body of the \<^verbatim>\<open>try\<close> block of lines 120--127: the new value of
  \<^verbatim>\<open>included_defs\<close> (which is \<open>[]\<close> before the block) or the exception, and what
  was opened and parsed.
\<close>

definition included_defs_try :: "env \<Rightarrow> pystr \<Rightarrow> (py_error + pystr list) \<times> io_event list" where
  "included_defs_try e path =
     (if endswith path (str ''.py'') then
        (case open_read e path of
           Inl err \<Rightarrow> (Inl err, [Open path])
         | Inr src \<Rightarrow>
             (case ast_parse e src of
                Inl err \<Rightarrow> (Inl err, [Open path, Parse src])
              | Inr node_body \<Rightarrow>
                  (Inr (map name
                     (filter (\<lambda>n. isinstance_ClassDef n \<or> isinstance_FunctionDef n) node_body)),
                   [Open path, Parse src])))
      else (Inr [], []))"

text \<open>Lines 119--130: the bare \<^verbatim>\<open>except\<close> resets \<^verbatim>\<open>included_defs\<close> to \<open>[]\<close>.\<close>

definition compute_included_defs :: "env \<Rightarrow> pystr \<Rightarrow> pystr list \<times> io_event list" where
  "compute_included_defs e path =
     (case included_defs_try e path of
        (Inl err, io) \<Rightarrow> ([], io)
      | (Inr defs, io) \<Rightarrow> (defs, io))"

text \<open>
  Line 118, \<^verbatim>\<open>file_path not in allSections.sections\<close>: the list holds
  \<^verbatim>\<open>CodeSection\<close> objects, and \<^verbatim>\<open>in\<close> compares each of them with the string by
  \<^verbatim>\<open>==\<close>. A string never equals a \<^verbatim>\<open>CodeSection\<close>.
\<close>

definition section_eq_str :: "CodeSection \<Rightarrow> pystr \<Rightarrow> bool" where
  "section_eq_str sec s = False"

definition str_in_sections :: "pystr \<Rightarrow> CodeSection list \<Rightarrow> bool" where
  "str_in_sections s secs = list_ex (\<lambda>sec. section_eq_str sec s) secs"

text \<open>
  The loop of lines 117--139. The state is the collection built so far and the trace of
  files opened and parsed.
\<close>

fun aggregate ::
  "env \<Rightarrow> (pystr \<times> pystr) list \<Rightarrow> CodeSections \<times> io_event list \<Rightarrow> CodeSections \<times> io_event list"
where
  "aggregate e [] st = st"
| "aggregate e ((path, matched_line) # rest) (allSections, trace) =
     (if \<not> str_in_sections path (sections allSections) then
        (case compute_included_defs e path of
           (defs, io) \<Rightarrow>
             if \<not> list_ex (\<lambda>sec. file_path sec = path) (sections allSections) then
               aggregate e rest
                 (allSections\<lparr>sections := sections allSections @
                    [\<lparr>search_result = matched_line, file_path = path,
                      included_defs = defs, similarity_score = 1\<rparr>]\<rparr>,
                  trace @ io)
             else aggregate e rest (allSections, trace @ io))
      else aggregate e rest (allSections, trace))"

text \<open>
  The request is a string or a \<^verbatim>\<open>Prompt\<close> with a payload. Line 105:
  \<^verbatim>\<open>query = request.payload if isinstance(request, Prompt) else request\<close>.
\<close>

datatype request = Str pystr | Prompt (payload: pyval)

definition request_query :: "request \<Rightarrow> pyval" where
  "request_query req = (case req of Prompt p \<Rightarrow> p | Str s \<Rightarrow> PyStr s)"

text \<open>
  The events the generator yields: \<^verbatim>\<open>PromptStarted(query, {"query": query})\<close> and
  \<^verbatim>\<open>TurnEnd(self.name, [{"content": allSections}])\<close>. The event classes are declared
  in \<^verbatim>\<open>agentic.events\<close>: the first argument of both is the field \<^verbatim>\<open>agent: str\<close> of a
  validated model, the second is the payload. Line 106 passes the query as the agent, so
  a query that is \<^verbatim>\<open>None\<close> is refused with a \<^verbatim>\<open>ValidationError\<close>, as in
  \<open>new_CodeSections\<close>.
\<close>

datatype event =
    PromptStarted pystr "(pystr \<times> pyval) list"
  | TurnEnd pystr CodeSections

definition new_PromptStarted :: "pyval \<Rightarrow> (pystr \<times> pyval) list \<Rightarrow> py_error + event" where
  "new_PromptStarted agent message =
     (case agent of
        PyNone \<Rightarrow> Inl ValidationError
      | PyStr a \<Rightarrow> Inr (PromptStarted a message))"

text \<open>\<^verbatim>\<open>d.get(key)\<close>: \<^verbatim>\<open>None\<close> when the key is missing.\<close>

definition dict_get :: "(pystr \<rightharpoonup> pyval) \<Rightarrow> pystr \<Rightarrow> pyval" where
  "dict_get d k = (case d k of None \<Rightarrow> PyNone | Some v \<Rightarrow> v)"

text \<open>
  A turn: the events yielded in order, the exception that ended the generator if there
  was one, and the files opened and parsed. \<open>self_name\<close> is \<^verbatim>\<open>self.name\<close>.
\<close>

record turn =
  yielded :: "event list"
  raised :: "py_error option"
  io_log :: "io_event list"

definition next_turn :: "env \<Rightarrow> pystr \<Rightarrow> request \<Rightarrow> (pystr \<rightharpoonup> pyval) \<Rightarrow> turn" where
  "next_turn e self_name req request_context =
     (let query = request_query req in
      case new_PromptStarted query [(str ''query'', query)] of
        Inl err \<Rightarrow> \<lparr>yielded = [], raised = Some err, io_log = []\<rparr>
      | Inr started \<Rightarrow>
          (let search_query = dict_get request_context (str ''query'') in
           case run_git_grep e search_query of
             Inl err \<Rightarrow> \<lparr>yielded = [started], raised = Some err, io_log = []\<rparr>
           | Inr grep_results \<Rightarrow>
               (case new_CodeSections [] search_query of
                  Inl err \<Rightarrow> \<lparr>yielded = [started], raised = Some err, io_log = []\<rparr>
                | Inr allSections \<Rightarrow>
                    (case aggregate e grep_results (allSections, []) of
                       (final, trace) \<Rightarrow>
                         \<lparr>yielded = [started, TurnEnd self_name final],
                          raised = None, io_log = trace\<rparr>))))"

subsection \<open>The aggregator as the specification describes it\<close>

text \<open>
  The specification's aggregator keeps the file paths that already have a section,
  processes the matches in order, and keeps a match only when its file path is new.
  \<open>first_matches seen ms\<close> are the matches of \<open>ms\<close> that are kept, and
  \<open>section_of e m\<close> is the section built from a kept match. They are compared with
  \<open>aggregate\<close> below.
\<close>

fun first_matches :: "pystr list \<Rightarrow> (pystr \<times> pystr) list \<Rightarrow> (pystr \<times> pystr) list" where
  "first_matches seen [] = []"
| "first_matches seen ((path, matched_line) # rest) =
     (if path \<in> set seen then first_matches seen rest
      else (path, matched_line) # first_matches (seen @ [path]) rest)"

definition section_of :: "env \<Rightarrow> pystr \<times> pystr \<Rightarrow> CodeSection" where
  "section_of e m =
     \<lparr>search_result = snd m, file_path = fst m,
      included_defs = fst (compute_included_defs e (fst m)), similarity_score = 1\<rparr>"

subsection \<open>A fixture repository\<close>

text \<open>
  A working tree with a Python file \<^verbatim>\<open>a.py\<close> and a text file \<^verbatim>\<open>b.txt\<close>. The query
  \<^verbatim>\<open>TARGET\<close> matches two lines of \<^verbatim>\<open>a.py\<close> and one of \<^verbatim>\<open>b.txt\<close>; every other
  query matches nothing (\<^verbatim>\<open>git grep\<close> then exits with status 1 and prints nothing).
  \<^verbatim>\<open>a.py\<close> defines a function with a nested function, a coroutine, a class nested
  in another statement, and a class with a method.
\<close>

definition fixture_src :: pystr where
  "fixture_src = str ''the text of a.py''"

definition fixture_body :: "stmt list" where
  "fixture_body =
     [FunctionDef (str ''foo'') [FunctionDef (str ''inner'') []],
      AsyncFunctionDef (str ''fetch'') [],
      OtherStmt [ClassDef (str ''Hidden'') []],
      ClassDef (str ''Bar'') [FunctionDef (str ''method'') []]]"

definition fixture_stdout :: pystr where
  "fixture_stdout =
     str ''a.py:1:x'' @ [10] @ str ''a.py:2:y:z'' @ [10] @ str ''b.txt:3:w'' @ [10]"

definition fixture_env :: env where
  "fixture_env =
     \<lparr>git_grep = (\<lambda>q. if q = str ''TARGET''
                      then Inr \<lparr>returncode = 0, stdout = fixture_stdout, stderr = []\<rparr>
                      else Inr \<lparr>returncode = 1, stdout = [], stderr = []\<rparr>),
      open_read = (\<lambda>p. if p = str ''a.py'' then Inr fixture_src else Inl OSError),
      ast_parse = (\<lambda>s. if s = fixture_src then Inr fixture_body else Inl SyntaxError)\<rparr>"

definition fixture_ctx :: "pystr \<rightharpoonup> pyval" where
  "fixture_ctx = [str ''query'' \<mapsto> PyStr (str ''TARGET'')]"

definition fixture_name :: pystr where
  "fixture_name = str ''Git-Grep Agent''"

definition fixture_collection :: CodeSections where
  "fixture_collection =
     \<lparr>sections =
        [\<lparr>search_result = str ''x'', file_path = str ''a.py'',
          included_defs = [str ''foo'', str ''Bar''], similarity_score = 1\<rparr>,
         \<lparr>search_result = str ''w'', file_path = str ''b.txt'',
          included_defs = [], similarity_score = 1\<rparr>],
      search_query = str ''TARGET''\<rparr>"

text \<open>
  The same tree when no file can be opened, and when \<^verbatim>\<open>a.py\<close> holds a text that is
  not valid Python. In both, the turn gives \<open>bare_collection\<close>.
\<close>

definition unreadable_env :: env where
  "unreadable_env = fixture_env\<lparr>open_read := (\<lambda>p. Inl OSError)\<rparr>"

definition unparsable_env :: env where
  "unparsable_env =
     fixture_env\<lparr>open_read :=
       (\<lambda>p. if p = str ''a.py'' then Inr (str ''def foo(:'') else Inl OSError)\<rparr>"

definition bare_collection :: CodeSections where
  "bare_collection =
     \<lparr>sections =
        [\<lparr>search_result = str ''x'', file_path = str ''a.py'',
          included_defs = [], similarity_score = 1\<rparr>,
         \<lparr>search_result = str ''w'', file_path = str ''b.txt'',
          included_defs = [], similarity_score = 1\<rparr>],
      search_query = str ''TARGET''\<rparr>"

subsection \<open>The symbol extractor as the specification describes it\<close>


text \<open>
  \<open>top_level_defs\<close> is the same reading without the coroutines: the names of the
  plain function definitions (\<^verbatim>\<open>def\<close>) and of the class definitions among the
  top-level statements, in source order. Neither function looks into a nested block;
  \<open>shallow\<close> removes the nested block of a statement.
\<close>

fun top_level_defs :: "stmt list \<Rightarrow> pystr list" where
  "top_level_defs [] = []"
| "top_level_defs (FunctionDef nm b # rest) = nm # top_level_defs rest"
| "top_level_defs (ClassDef nm b # rest) = nm # top_level_defs rest"
| "top_level_defs (AsyncFunctionDef nm b # rest) = top_level_defs rest"
| "top_level_defs (OtherStmt b # rest) = top_level_defs rest"




text \<open>A request context whose query matches nothing in the fixture.\<close>

definition quiet_ctx :: "pystr \<rightharpoonup> pyval" where
  "quiet_ctx = [str ''query'' \<mapsto> PyStr (str ''nothing'')]"

text \<open>
  A tree with one more file, \<^verbatim>\<open>ff.txt\<close>, whose first line is \<^verbatim>\<open>a:b\<close>, a form feed
  (code point 12), and \<^verbatim>\<open>c:d:e\<close>. The query \<^verbatim>\<open>a\<close> matches this line only, and
  \<^verbatim>\<open>git grep -n\<close> prints it as one line, ended by a line feed.
\<close>

definition formfeed_stdout :: pystr where
  "formfeed_stdout = str ''ff.txt:1:a:b'' @ [12] @ str ''c:d:e'' @ [10]"

definition formfeed_env :: env where
  "formfeed_env =
     fixture_env\<lparr>git_grep := (\<lambda>q. if q = str ''a''
       then Inr \<lparr>returncode = 0, stdout = formfeed_stdout, stderr = []\<rparr>
       else Inr \<lparr>returncode = 1, stdout = [], stderr = []\<rparr>)\<rparr>"

section \<open>Properties\<close>

subsection \<open>The loop of \<open>next_turn\<close> and the specification's aggregator\<close>

lemma str_in_sections_never: "\<not> str_in_sections p secs"
  by (simp add: str_in_sections_def section_eq_str_def list_ex_iff)

lemma file_path_section_of: "file_path (section_of e m) = fst m"
  by (simp add: section_of_def)

lemma aggregate_fst:
  "fst (aggregate e ms (S, tr)) =
     S\<lparr>sections := sections S @ map (section_of e) (first_matches (map file_path (sections S)) ms)\<rparr>"
proof (induction ms arbitrary: S tr)
  case Nil
  show ?case by simp
next
  case (Cons m ms)
  obtain p l where m: "m = (p, l)" by (cases m)
  obtain defs io where c: "compute_included_defs e p = (defs, io)"
    by (cases "compute_included_defs e p")
  show ?case
  proof (cases "p \<in> set (map file_path (sections S))")
    case True
    then have "list_ex (\<lambda>sec. file_path sec = p) (sections S)"
      by (auto simp: list_ex_iff)
    then show ?thesis
      using True Cons.IH [of S "tr @ io"] by (simp add: m c str_in_sections_never)
  next
    case False
    then have "\<not> list_ex (\<lambda>sec. file_path sec = p) (sections S)"
      by (auto simp: list_ex_iff)
    then show ?thesis
      using False c
        Cons.IH [of "S\<lparr>sections := sections S @ [section_of e (p, l)]\<rparr>" "tr @ io"]
      by (simp add: m str_in_sections_never section_of_def)
  qed
qed

lemma aggregate_snd:
  "snd (aggregate e ms (S, tr)) =
     tr @ concat (map (\<lambda>m. snd (compute_included_defs e (fst m))) ms)"
proof (induction ms arbitrary: S tr)
  case Nil
  show ?case by simp
next
  case (Cons m ms)
  obtain p l where m: "m = (p, l)" by (cases m)
  obtain defs io where c: "compute_included_defs e p = (defs, io)"
    by (cases "compute_included_defs e p")
  show ?case
    using Cons.IH by (simp add: m c str_in_sections_never)
qed

lemma sections_aggregate_empty:
  "sections (fst (aggregate e ms (\<lparr>sections = [], search_query = q\<rparr>, []))) =
     map (section_of e) (first_matches [] ms)"
  by (simp add: aggregate_fst)

lemma search_query_aggregate:
  "search_query (fst (aggregate e ms (S, tr))) = search_query S"
  by (simp add: aggregate_fst)

lemma first_matches_fst_notin: "fst ` set (first_matches seen ms) \<inter> set seen = {}"
  by (induction seen ms rule: first_matches.induct) auto

lemma first_matches_distinct: "distinct (map fst (first_matches seen ms))"
proof (induction seen ms rule: first_matches.induct)
  case (1 seen)
  show ?case by simp
next
  case (2 seen path matched_line rest)
  show ?case
  proof (cases "path \<in> set seen")
    case True
    with 2 show ?thesis by simp
  next
    case False
    have "fst ` set (first_matches (seen @ [path]) rest) \<inter> set (seen @ [path]) = {}"
      by (rule first_matches_fst_notin)
    then have "path \<notin> fst ` set (first_matches (seen @ [path]) rest)" by auto
    with False 2 show ?thesis by simp
  qed
qed

lemma first_matches_filter:
  "filter (\<lambda>m. fst m = p) (first_matches seen ms) =
     (if p \<in> set seen then []
      else case map_of ms p of None \<Rightarrow> [] | Some l \<Rightarrow> [(p, l)])"
proof (induction seen ms rule: first_matches.induct)
  case (1 seen)
  show ?case by simp
next
  case (2 seen path matched_line rest)
  show ?case
  proof (cases "path \<in> set seen")
    case True
    with 2 show ?thesis by auto
  next
    case False
    with 2 show ?thesis by (auto split: option.splits)
  qed
qed

lemma filter_sections_of:
  "filter (\<lambda>s. file_path s = p) (map (section_of e) ms) =
     map (section_of e) (filter (\<lambda>m. fst m = p) ms)"
  by (induction ms) (simp_all add: file_path_section_of)

subsection \<open>The shape of a turn\<close>

lemma run_git_grep_returns: "\<exists>ms. run_git_grep e q = Inr ms"
  by (simp add: run_git_grep_def split: sum.splits)

lemma request_query_Str: "request_query (Str s) = PyStr s"
  by (simp add: request_query_def)

lemma request_query_Prompt: "request_query (Prompt v) = v"
  by (simp add: request_query_def)

lemma next_turn_PyStr:
  assumes "request_query req = PyStr r"
    and "dict_get ctx (str ''query'') = PyStr q"
    and "run_git_grep e (PyStr q) = Inr ms"
  shows "next_turn e sn req ctx =
     \<lparr>yielded =
        [PromptStarted r [(str ''query'', PyStr r)],
         TurnEnd sn (fst (aggregate e ms (\<lparr>sections = [], search_query = q\<rparr>, [])))],
      raised = None,
      io_log = snd (aggregate e ms (\<lparr>sections = [], search_query = q\<rparr>, []))\<rparr>"
  using assms
  by (simp add: next_turn_def new_PromptStarted_def new_CodeSections_def Let_def
      split: prod.splits)

lemma next_turn_PyNone:
  assumes "request_query req = PyStr r"
    and "dict_get ctx (str ''query'') = PyNone"
  shows "next_turn e sn req ctx =
     \<lparr>yielded = [PromptStarted r [(str ''query'', PyStr r)]],
      raised = Some ValidationError,
      io_log = []\<rparr>"
proof -
  obtain ms where "run_git_grep e PyNone = Inr ms"
    using run_git_grep_returns by blast
  then show ?thesis
    using assms
    by (simp add: next_turn_def new_PromptStarted_def new_CodeSections_def Let_def)
qed

lemma next_turn_query_None:
  assumes "request_query req = PyNone"
  shows "next_turn e sn req ctx = \<lparr>yielded = [], raised = Some ValidationError, io_log = []\<rparr>"
  using assms by (simp add: next_turn_def new_PromptStarted_def Let_def)

lemma TurnEnd_yielded:
  assumes "TurnEnd nm coll \<in> set (yielded (next_turn e sn req ctx))"
  obtains q ms r where "dict_get ctx (str ''query'') = PyStr q"
    and "run_git_grep e (PyStr q) = Inr ms"
    and "coll = fst (aggregate e ms (\<lparr>sections = [], search_query = q\<rparr>, []))"
    and "nm = sn"
    and "request_query req = PyStr r"
proof (cases "request_query req")
  case PyNone
  from next_turn_query_None [OF this, of e sn ctx] assms show ?thesis by simp
next
  case r: (PyStr r)
  show ?thesis
  proof (cases "dict_get ctx (str ''query'')")
    case PyNone
    from next_turn_PyNone [OF r this, of e sn] assms show ?thesis by simp
  next
    case (PyStr q)
    obtain ms where ms: "run_git_grep e (PyStr q) = Inr ms"
      using run_git_grep_returns by blast
    from next_turn_PyStr [OF r PyStr ms, of sn] assms
    have "coll = fst (aggregate e ms (\<lparr>sections = [], search_query = q\<rparr>, []))" and "nm = sn"
      by simp_all
    with PyStr ms r that show ?thesis by blast
  qed
qed

subsection \<open>The fixture, evaluated\<close>

lemma run_git_grep_fixture:
  "run_git_grep fixture_env (PyStr (str ''TARGET'')) =
     Inr [(str ''a.py'', str ''x''), (str ''a.py'', str ''y:z''), (str ''b.txt'', str ''w'')]"
  by (simp add: run_git_grep_def run_git_grep_try_def subprocess_run_def fixture_env_def
      fixture_stdout_def splitlines_def is_linebreak_def str_def numeral_2_eq_2 unpack3_def)

lemma compute_included_defs_fixture_a:
  "compute_included_defs fixture_env (str ''a.py'') =
     ([str ''foo'', str ''Bar''], [Open (str ''a.py''), Parse fixture_src])"
  by (simp add: compute_included_defs_def included_defs_try_def fixture_env_def
      fixture_body_def endswith_def str_def)

lemma compute_included_defs_fixture_b:
  "compute_included_defs fixture_env (str ''b.txt'') = ([], [])"
  by (simp add: compute_included_defs_def included_defs_try_def fixture_env_def
      endswith_def str_def)

lemma dict_get_fixture_ctx: "dict_get fixture_ctx (str ''query'') = PyStr (str ''TARGET'')"
  by (simp add: dict_get_def fixture_ctx_def)

lemma next_turn_fixture:
  "next_turn fixture_env fixture_name (Str (str ''TARGET'')) fixture_ctx =
     \<lparr>yielded =
        [PromptStarted (str ''TARGET'') [(str ''query'', PyStr (str ''TARGET''))],
         TurnEnd fixture_name fixture_collection],
      raised = None,
      io_log = [Open (str ''a.py''), Parse fixture_src, Open (str ''a.py''), Parse fixture_src]\<rparr>"
proof -
  have ne: "str ''a.py'' \<noteq> str ''b.txt''"
    by (simp add: str_def)
  show ?thesis
    unfolding next_turn_PyStr [OF request_query_Str dict_get_fixture_ctx run_git_grep_fixture]
    using ne
    by (simp add: str_in_sections_never compute_included_defs_fixture_a
        compute_included_defs_fixture_b fixture_collection_def)
qed

lemma TurnEnd_fixture:
  "TurnEnd fixture_name fixture_collection
     \<in> set (yielded (next_turn fixture_env fixture_name (Str (str ''TARGET'')) fixture_ctx))"
  by (simp add: next_turn_fixture)

lemma similarity_score_section_of: "similarity_score (section_of e m) = 1"
  by (simp add: section_of_def)



lemma sections_of_path:
  "filter (\<lambda>sec. file_path sec = p)
       (sections (fst (aggregate e ms (\<lparr>sections = [], search_query = q\<rparr>, [])))) =
     (case map_of ms p of None \<Rightarrow> [] | Some l \<Rightarrow> [section_of e (p, l)])"
  by (simp add: sections_aggregate_empty filter_sections_of first_matches_filter
      split: option.splits)

subsection \<open>Extraction in two environments\<close>

lemma compute_included_defs_cong:
  assumes "ast_parse e' = ast_parse e" and "open_read e' p = open_read e p"
  shows "compute_included_defs e' p = compute_included_defs e p"
  using assms by (simp add: compute_included_defs_def included_defs_try_def cong: sum.case_cong)

lemma run_git_grep_cong:
  assumes "git_grep e' = git_grep e"
  shows "run_git_grep e' q = run_git_grep e q"
  using assms by (simp add: run_git_grep_def run_git_grep_try_def subprocess_run_def cong: pyval.case_cong)

lemma compute_included_defs_failure:
  assumes "\<not> endswith p (str ''.py'') \<or> (\<exists>err. open_read e p = Inl err)
     \<or> (\<exists>src err. open_read e p = Inr src \<and> ast_parse e src = Inl err)"
  shows "fst (compute_included_defs e p) = []"
  using assms by (auto simp: compute_included_defs_def included_defs_try_def)

lemma filter_other_sections_of:
  "filter (\<lambda>s. file_path s \<noteq> p) (map (section_of e) ms) =
     map (section_of e) (filter (\<lambda>m. fst m \<noteq> p) ms)"
  by (induction ms) (simp_all add: file_path_section_of)

lemma section_of_cong:
  assumes "ast_parse e' = ast_parse e" and "open_read e' (fst m) = open_read e (fst m)"
  shows "section_of e' m = section_of e m"
  using compute_included_defs_cong [OF assms] by (simp add: section_of_def)

lemma run_git_grep_unreadable:
  "run_git_grep unreadable_env (PyStr (str ''TARGET'')) =
     Inr [(str ''a.py'', str ''x''), (str ''a.py'', str ''y:z''), (str ''b.txt'', str ''w'')]"
  using run_git_grep_cong [of unreadable_env fixture_env] run_git_grep_fixture
  by (simp add: unreadable_env_def)

lemma compute_included_defs_unreadable_a:
  "compute_included_defs unreadable_env (str ''a.py'') = ([], [Open (str ''a.py'')])"
  by (simp add: compute_included_defs_def included_defs_try_def unreadable_env_def
      endswith_def str_def)

lemma compute_included_defs_unreadable_b:
  "compute_included_defs unreadable_env (str ''b.txt'') = ([], [])"
  by (simp add: compute_included_defs_def included_defs_try_def unreadable_env_def
      endswith_def str_def)

lemma next_turn_unreadable:
  "next_turn unreadable_env fixture_name (Str (str ''TARGET'')) fixture_ctx =
     \<lparr>yielded =
        [PromptStarted (str ''TARGET'') [(str ''query'', PyStr (str ''TARGET''))],
         TurnEnd fixture_name bare_collection],
      raised = None,
      io_log = [Open (str ''a.py''), Open (str ''a.py'')]\<rparr>"
proof -
  have ne: "str ''a.py'' \<noteq> str ''b.txt''"
    by (simp add: str_def)
  show ?thesis
    unfolding next_turn_PyStr [OF request_query_Str dict_get_fixture_ctx run_git_grep_unreadable]
    using ne
    by (simp add: str_in_sections_never compute_included_defs_unreadable_a
        compute_included_defs_unreadable_b bare_collection_def)
qed

lemma TurnEnd_unreadable:
  "TurnEnd fixture_name bare_collection
     \<in> set (yielded (next_turn unreadable_env fixture_name (Str (str ''TARGET'')) fixture_ctx))"
  by (simp add: next_turn_unreadable)

lemma run_git_grep_unparsable:
  "run_git_grep unparsable_env (PyStr (str ''TARGET'')) =
     Inr [(str ''a.py'', str ''x''), (str ''a.py'', str ''y:z''), (str ''b.txt'', str ''w'')]"
  using run_git_grep_cong [of unparsable_env fixture_env] run_git_grep_fixture
  by (simp add: unparsable_env_def)

lemma unparsable_a:
  "open_read unparsable_env (str ''a.py'') = Inr (str ''def foo(:'')
   \<and> ast_parse unparsable_env (str ''def foo(:'') = Inl SyntaxError"
  by (simp add: unparsable_env_def fixture_env_def fixture_src_def str_def)

lemma compute_included_defs_unparsable_a:
  "compute_included_defs unparsable_env (str ''a.py'') =
     ([], [Open (str ''a.py''), Parse (str ''def foo(:'')])"
proof -
  have "endswith (str ''a.py'') (str ''.py'')"
    by (simp add: endswith_def str_def)
  then show ?thesis
    using unparsable_a by (simp add: compute_included_defs_def included_defs_try_def)
qed

lemma compute_included_defs_unparsable_b:
  "compute_included_defs unparsable_env (str ''b.txt'') = ([], [])"
  by (simp add: compute_included_defs_def included_defs_try_def endswith_def str_def)

lemma next_turn_unparsable:
  "next_turn unparsable_env fixture_name (Str (str ''TARGET'')) fixture_ctx =
     \<lparr>yielded =
        [PromptStarted (str ''TARGET'') [(str ''query'', PyStr (str ''TARGET''))],
         TurnEnd fixture_name bare_collection],
      raised = None,
      io_log = [Open (str ''a.py''), Parse (str ''def foo(:''),
                Open (str ''a.py''), Parse (str ''def foo(:'')]\<rparr>"
proof -
  have ne: "str ''a.py'' \<noteq> str ''b.txt''"
    by (simp add: str_def)
  show ?thesis
    unfolding next_turn_PyStr [OF request_query_Str dict_get_fixture_ctx run_git_grep_unparsable]
    using ne
    by (simp add: str_in_sections_never compute_included_defs_unparsable_a
        compute_included_defs_unparsable_b bare_collection_def)
qed

subsection \<open>The comprehension of lines 124--127\<close>

lemma names_top_level_defs:
  "map name (filter (\<lambda>n. isinstance_ClassDef n \<or> isinstance_FunctionDef n) node_body) =
     top_level_defs node_body"
  by (induction node_body rule: top_level_defs.induct) simp_all

lemma top_level_defs_append:
  "top_level_defs (xs @ ys) = top_level_defs xs @ top_level_defs ys"
  by (induction xs rule: top_level_defs.induct) simp_all


lemma compute_included_defs_parsed:
  assumes "endswith p (str ''.py'')" and "open_read e p = Inr src"
    and "ast_parse e src = Inr node_body"
  shows "compute_included_defs e p = (top_level_defs node_body, [Open p, Parse src])"
  using assms
  by (simp add: compute_included_defs_def included_defs_try_def names_top_level_defs)


subsection \<open>Splitting and parsing the output lines\<close>

lemma length_split: "length (split sep k s) \<le> Suc k"
proof (induction k arbitrary: s)
  case 0
  show ?case by simp
next
  case (Suc k)
  from Suc [of "tl (dropWhile (\<lambda>c. c \<noteq> sep) s)"] show ?case by simp
qed

lemma split_first:
  assumes "sep \<notin> set a"
  shows "split sep (Suc k) (a @ sep # r) = a # split sep k r"
proof -
  from assms have "\<And>x. x \<in> set a \<Longrightarrow> x \<noteq> sep" by blast
  then have "takeWhile (\<lambda>c. c \<noteq> sep) (a @ sep # r) = a"
    and "dropWhile (\<lambda>c. c \<noteq> sep) (a @ sep # r) = sep # r"
    by simp_all
  then show ?thesis by simp
qed

lemma split_three:
  assumes "58 \<notin> set path" and "58 \<notin> set num"
  shows "split 58 2 (path @ 58 # num @ 58 # content) = [path, num, content]"
  using split_first [OF assms(1), of "Suc 0" "num @ 58 # content"]
    split_first [OF assms(2), of 0 content]
  by (simp add: numeral_2_eq_2)

lemma unpack3_three:
  assumes "length parts = 3"
  shows "\<exists>a b c. parts = [a, b, c] \<and> unpack3 parts = Inr (a, b, c)"
proof -
  from assms obtain a b c where "parts = [a, b, c]"
    by (auto simp: numeral_3_eq_3 length_Suc_conv)
  then show ?thesis by (simp add: unpack3_def)
qed

lemma parse_lines_returns: "\<exists>ms. parse_lines lines matches = Inr ms"
proof (induction lines arbitrary: matches)
  case Nil
  show ?case by simp
next
  case (Cons line rest)
  show ?case
  proof (cases "line \<noteq> [] \<and> 3 \<le> length (split 58 2 line)")
    case True
    moreover have "length (split 58 2 line) \<le> 3"
      using length_split [of 58 2 line] by simp
    ultimately have "length (split 58 2 line) = 3" by simp
    then obtain a b c where "unpack3 (split 58 2 line) = Inr (a, b, c)"
      using unpack3_three by blast
    with True Cons.IH [of "matches @ [(a, c)]"] show ?thesis by (simp add: Let_def)
  next
    case False
    with Cons.IH [of matches] show ?thesis by (auto simp: Let_def)
  qed
qed

text \<open>
  What the loop does with one string it is given: the string is split on the colon into
  at most three parts; a path, a line number and a content separated by colons give the
  match (path, content), the content being kept whole even when it has colons of its own;
  a string that splits into fewer than three parts gives no match; the loop never fails.
\<close>

lemma split_line_three_parts:
  "length (split 58 2 line) \<le> 3
   \<and> (58 \<notin> set path \<and> 58 \<notin> set num \<longrightarrow>
        split 58 2 (path @ 58 # num @ 58 # content) = [path, num, content]
        \<and> parse_lines ((path @ 58 # num @ 58 # content) # rest) matches =
            parse_lines rest (matches @ [(path, content)]))
   \<and> (length (split 58 2 line) < 3 \<longrightarrow>
        parse_lines (line # rest) matches = parse_lines rest matches)
   \<and> (\<exists>ms. parse_lines lines matches = Inr ms)"
proof (intro conjI impI)
  show "length (split 58 2 line) \<le> 3"
    using length_split [of 58 2 line] by simp
  show "\<exists>ms. parse_lines lines matches = Inr ms"
    by (rule parse_lines_returns)
  show "parse_lines (line # rest) matches = parse_lines rest matches"
    if "length (split 58 2 line) < 3"
    using that by (simp add: Let_def)
next
  assume "58 \<notin> set path \<and> 58 \<notin> set num"
  then show s: "split 58 2 (path @ 58 # num @ 58 # content) = [path, num, content]"
    by (simp add: split_three)
  show "parse_lines ((path @ 58 # num @ 58 # content) # rest) matches =
            parse_lines rest (matches @ [(path, content)])"
    unfolding parse_lines.simps s by (simp add: unpack3_def)
qed

subsection \<open>Turns on the fixture with other contexts\<close>

lemma run_git_grep_quiet: "run_git_grep fixture_env (PyStr (str ''nothing'')) = Inr []"
  by (simp add: run_git_grep_def run_git_grep_try_def subprocess_run_def fixture_env_def
      splitlines_def str_def)

lemma dict_get_quiet_ctx: "dict_get quiet_ctx (str ''query'') = PyStr (str ''nothing'')"
  by (simp add: dict_get_def quiet_ctx_def)

lemma next_turn_without_context_query:
  "next_turn fixture_env fixture_name (Str (str ''nothing'')) Map.empty =
     \<lparr>yielded =
        [PromptStarted (str ''nothing'') [(str ''query'', PyStr (str ''nothing''))]],
      raised = Some ValidationError,
      io_log = []\<rparr>"
proof -
  have "dict_get Map.empty (str ''query'') = PyNone"
    by (simp add: dict_get_def)
  from next_turn_PyNone [OF request_query_Str this] show ?thesis by simp
qed

lemma next_turn_Prompt_None:
  "next_turn e sn (Prompt PyNone) ctx =
     \<lparr>yielded = [], raised = Some ValidationError, io_log = []\<rparr>"
  by (rule next_turn_query_None) (rule request_query_Prompt)

lemma io_log_per_match:
  assumes "request_query req = PyStr r"
    and "dict_get ctx (str ''query'') = PyStr q"
    and "run_git_grep e (PyStr q) = Inr ms"
  shows "io_log (next_turn e sn req ctx) =
     concat (map (\<lambda>m. snd (compute_included_defs e (fst m))) ms)"
  unfolding next_turn_PyStr [OF assms] by (simp add: aggregate_snd)

section \<open>The claims\<close>

text \<open>
  C1. In every collection a turn produces, no two sections have the same
  \<open>file_path\<close>: a file path of the raw matches gives at most one section.
\<close>

theorem sections_distinct_file_path:
  "TurnEnd nm coll \<in> set (yielded (next_turn e sn req ctx)) \<Longrightarrow>
     distinct (map file_path (sections coll))"
proof -
  assume "TurnEnd nm coll \<in> set (yielded (next_turn e sn req ctx))"
  then obtain q ms where "coll = fst (aggregate e ms (\<lparr>sections = [], search_query = q\<rparr>, []))"
    by (rule TurnEnd_yielded)
  then have "map file_path (sections coll) = map fst (first_matches [] ms)"
    by (simp add: sections_aggregate_empty file_path_section_of)
  then show ?thesis by (simp add: first_matches_distinct)
qed

text \<open>
  The fixture: \<^verbatim>\<open>a.py\<close> matches twice and has one section.
\<close>

theorem sections_distinct_file_path_witness:
  "TurnEnd fixture_name fixture_collection
     \<in> set (yielded (next_turn fixture_env fixture_name (Str (str ''TARGET'')) fixture_ctx))
   \<and> map file_path (sections fixture_collection) = [str ''a.py'', str ''b.txt'']
   \<and> distinct (map file_path (sections fixture_collection))"
  using sections_distinct_file_path [OF TurnEnd_fixture] TurnEnd_fixture
  by (simp add: fixture_collection_def)

text \<open>
  C9. Every section of every collection a turn produces has \<open>similarity_score\<close> 1.0.
\<close>

theorem similarity_score_one:
  "TurnEnd nm coll \<in> set (yielded (next_turn e sn req ctx)) \<Longrightarrow>
     \<forall>sec \<in> set (sections coll). similarity_score sec = 1"
proof -
  assume "TurnEnd nm coll \<in> set (yielded (next_turn e sn req ctx))"
  then obtain q ms where "coll = fst (aggregate e ms (\<lparr>sections = [], search_query = q\<rparr>, []))"
    by (rule TurnEnd_yielded)
  then have "sections coll = map (section_of e) (first_matches [] ms)"
    by (simp add: sections_aggregate_empty)
  then show ?thesis by (simp add: similarity_score_section_of)
qed

theorem similarity_score_one_witness:
  "TurnEnd fixture_name fixture_collection
     \<in> set (yielded (next_turn fixture_env fixture_name (Str (str ''TARGET'')) fixture_ctx))
   \<and> map similarity_score (sections fixture_collection) = [1, 1]"
  using similarity_score_one [OF TurnEnd_fixture] TurnEnd_fixture
  by (simp add: fixture_collection_def)



text \<open>
  C7. Take a turn whose request and context carry strings, and a match of the search
  whose file cannot be opened, cannot be parsed, or is not a Python file. The turn ends
  without an exception and yields a collection that has a section for this file, with
  empty \<open>included_defs\<close>. In any environment that differs only in what reading this
  file gives, the turn ends without an exception too, and the sections of all other files
  are the same.
\<close>

theorem extraction_failure_local:
  assumes "request_query req = PyStr r"
    and "dict_get ctx (str ''query'') = PyStr q"
    and "run_git_grep e (PyStr q) = Inr ms"
    and "(p, l) \<in> set ms"
    and "\<not> endswith p (str ''.py'') \<or> (\<exists>err. open_read e p = Inl err)
       \<or> (\<exists>src err. open_read e p = Inr src \<and> ast_parse e src = Inl err)"
  shows "\<exists>coll.
           yielded (next_turn e sn req ctx) =
             [PromptStarted r [(str ''query'', PyStr r)], TurnEnd sn coll]
         \<and> raised (next_turn e sn req ctx) = None
         \<and> map included_defs (filter (\<lambda>sec. file_path sec = p) (sections coll)) = [[]]
         \<and> (\<forall>e'.
              git_grep e' = git_grep e \<and> ast_parse e' = ast_parse e
              \<and> (\<forall>p'. p' \<noteq> p \<longrightarrow> open_read e' p' = open_read e p')
              \<longrightarrow> (\<exists>coll'.
                     yielded (next_turn e' sn req ctx) =
                       [PromptStarted r [(str ''query'', PyStr r)], TurnEnd sn coll']
                   \<and> raised (next_turn e' sn req ctx) = None
                   \<and> filter (\<lambda>sec. file_path sec \<noteq> p) (sections coll') =
                       filter (\<lambda>sec. file_path sec \<noteq> p) (sections coll)))"
proof -
  let ?start = "(\<lparr>sections = [], search_query = q\<rparr>, [] :: io_event list)"
  let ?coll = "fst (aggregate e ms ?start)"
  note turn = next_turn_PyStr [OF assms(1) assms(2) assms(3), of sn]
  from assms(4) have "p \<in> fst ` set ms" by force
  then have "map_of ms p \<noteq> None" by (simp add: map_of_eq_None_iff)
  then obtain l0 where "map_of ms p = Some l0" by blast
  then have "filter (\<lambda>sec. file_path sec = p) (sections ?coll) = [section_of e (p, l0)]"
    unfolding sections_of_path by simp
  then have empty: "map included_defs (filter (\<lambda>sec. file_path sec = p) (sections ?coll)) = [[]]"
    using compute_included_defs_failure [OF assms(5)] by (simp add: section_of_def)
  have other: "\<exists>coll'.
       yielded (next_turn e' sn req ctx) =
         [PromptStarted r [(str ''query'', PyStr r)], TurnEnd sn coll']
     \<and> raised (next_turn e' sn req ctx) = None
     \<and> filter (\<lambda>sec. file_path sec \<noteq> p) (sections coll') =
         filter (\<lambda>sec. file_path sec \<noteq> p) (sections ?coll)"
    if a: "git_grep e' = git_grep e \<and> ast_parse e' = ast_parse e
       \<and> (\<forall>p'. p' \<noteq> p \<longrightarrow> open_read e' p' = open_read e p')" for e'
  proof -
    let ?coll' = "fst (aggregate e' ms ?start)"
    from a have "run_git_grep e' (PyStr q) = run_git_grep e (PyStr q)"
      by (intro run_git_grep_cong) simp
    with assms(3) have ms': "run_git_grep e' (PyStr q) = Inr ms" by simp
    note turn' = next_turn_PyStr [OF assms(1) assms(2) ms', of sn]
    have "section_of e' m = section_of e m" if "fst m \<noteq> p" for m
    proof (rule section_of_cong)
      from a show "ast_parse e' = ast_parse e" by simp
      from a that show "open_read e' (fst m) = open_read e (fst m)" by simp
    qed
    then have "map (section_of e') (filter (\<lambda>m. fst m \<noteq> p) (first_matches [] ms)) =
          map (section_of e) (filter (\<lambda>m. fst m \<noteq> p) (first_matches [] ms))"
      by simp
    then have same: "filter (\<lambda>sec. file_path sec \<noteq> p) (sections ?coll') =
          filter (\<lambda>sec. file_path sec \<noteq> p) (sections ?coll)"
      unfolding sections_aggregate_empty filter_other_sections_of .
    show ?thesis
    proof (rule exI [of _ ?coll'], intro conjI)
      show "yielded (next_turn e' sn req ctx) =
         [PromptStarted r [(str ''query'', PyStr r)], TurnEnd sn ?coll']"
        unfolding turn' by simp
      show "raised (next_turn e' sn req ctx) = None"
        unfolding turn' by simp
      show "filter (\<lambda>sec. file_path sec \<noteq> p) (sections ?coll') =
          filter (\<lambda>sec. file_path sec \<noteq> p) (sections ?coll)"
        by (rule same)
    qed
  qed
  show ?thesis
  proof (rule exI [of _ ?coll], intro conjI allI impI)
    show "yielded (next_turn e sn req ctx) =
         [PromptStarted r [(str ''query'', PyStr r)], TurnEnd sn ?coll]"
      unfolding turn by simp
    show "raised (next_turn e sn req ctx) = None"
      unfolding turn by simp
    show "map included_defs (filter (\<lambda>sec. file_path sec = p) (sections ?coll)) = [[]]"
      by (rule empty)
  next
    fix e' :: env
    assume "git_grep e' = git_grep e \<and> ast_parse e' = ast_parse e
       \<and> (\<forall>p'. p' \<noteq> p \<longrightarrow> open_read e' p' = open_read e p')"
    then show "\<exists>coll'.
       yielded (next_turn e' sn req ctx) =
         [PromptStarted r [(str ''query'', PyStr r)], TurnEnd sn coll']
     \<and> raised (next_turn e' sn req ctx) = None
     \<and> filter (\<lambda>sec. file_path sec \<noteq> p) (sections coll') =
         filter (\<lambda>sec. file_path sec \<noteq> p) (sections ?coll)"
      by (rule other)
  qed
qed

text \<open>
  On the fixture: \<^verbatim>\<open>a.py\<close> cannot be opened, \<^verbatim>\<open>a.py\<close> cannot be parsed, and
  \<^verbatim>\<open>b.txt\<close> is not a Python file; the section of \<^verbatim>\<open>b.txt\<close> is the same whether
  \<^verbatim>\<open>a.py\<close> can be parsed or not.
\<close>

theorem extraction_failure_local_witness:
  "open_read unreadable_env (str ''a.py'') = Inl OSError
   \<and> yielded (next_turn unreadable_env fixture_name (Str (str ''TARGET'')) fixture_ctx) =
       [PromptStarted (str ''TARGET'') [(str ''query'', PyStr (str ''TARGET''))],
        TurnEnd fixture_name bare_collection]
   \<and> raised (next_turn unreadable_env fixture_name (Str (str ''TARGET'')) fixture_ctx) = None
   \<and> open_read unparsable_env (str ''a.py'') = Inr (str ''def foo(:'')
   \<and> ast_parse unparsable_env (str ''def foo(:'') = Inl SyntaxError
   \<and> yielded (next_turn unparsable_env fixture_name (Str (str ''TARGET'')) fixture_ctx) =
       [PromptStarted (str ''TARGET'') [(str ''query'', PyStr (str ''TARGET''))],
        TurnEnd fixture_name bare_collection]
   \<and> raised (next_turn unparsable_env fixture_name (Str (str ''TARGET'')) fixture_ctx) = None
   \<and> map included_defs
        (filter (\<lambda>sec. file_path sec = str ''a.py'') (sections bare_collection)) = [[]]
   \<and> \<not> endswith (str ''b.txt'') (str ''.py'')
   \<and> yielded (next_turn fixture_env fixture_name (Str (str ''TARGET'')) fixture_ctx) =
       [PromptStarted (str ''TARGET'') [(str ''query'', PyStr (str ''TARGET''))],
        TurnEnd fixture_name fixture_collection]
   \<and> raised (next_turn fixture_env fixture_name (Str (str ''TARGET'')) fixture_ctx) = None
   \<and> map included_defs
        (filter (\<lambda>sec. file_path sec = str ''b.txt'') (sections fixture_collection)) = [[]]
   \<and> filter (\<lambda>sec. file_path sec \<noteq> str ''a.py'') (sections fixture_collection) =
       filter (\<lambda>sec. file_path sec \<noteq> str ''a.py'') (sections bare_collection)"
proof -
  let ?req = "Str (str ''TARGET'')"
  let ?ms = "[(str ''a.py'', str ''x''), (str ''a.py'', str ''y:z''), (str ''b.txt'', str ''w'')]"
  have ma: "(str ''a.py'', str ''y:z'') \<in> set ?ms" by simp
  have mb: "(str ''b.txt'', str ''w'') \<in> set ?ms" by simp
  have o: "open_read unreadable_env (str ''a.py'') = Inl OSError"
    by (simp add: unreadable_env_def)
  have b: "\<not> endswith (str ''b.txt'') (str ''.py'')"
    by (simp add: endswith_def str_def)
  have same: "git_grep fixture_env = git_grep unparsable_env
      \<and> ast_parse fixture_env = ast_parse unparsable_env
      \<and> (\<forall>p'. p' \<noteq> str ''a.py'' \<longrightarrow> open_read fixture_env p' = open_read unparsable_env p')"
    by (simp add: unparsable_env_def fixture_env_def)
  have y1: "yielded (next_turn unreadable_env fixture_name ?req fixture_ctx) =
       [PromptStarted (str ''TARGET'') [(str ''query'', PyStr (str ''TARGET''))],
        TurnEnd fixture_name bare_collection]"
    by (simp add: next_turn_unreadable)
  have y2: "yielded (next_turn unparsable_env fixture_name ?req fixture_ctx) =
       [PromptStarted (str ''TARGET'') [(str ''query'', PyStr (str ''TARGET''))],
        TurnEnd fixture_name bare_collection]"
    by (simp add: next_turn_unparsable)
  have y3: "yielded (next_turn fixture_env fixture_name ?req fixture_ctx) =
       [PromptStarted (str ''TARGET'') [(str ''query'', PyStr (str ''TARGET''))],
        TurnEnd fixture_name fixture_collection]"
    by (simp add: next_turn_fixture)
  have f1: "\<not> endswith (str ''a.py'') (str ''.py'')
      \<or> (\<exists>err. open_read unreadable_env (str ''a.py'') = Inl err)
      \<or> (\<exists>src err. open_read unreadable_env (str ''a.py'') = Inr src
            \<and> ast_parse unreadable_env src = Inl err)"
    using o by blast
  have f2: "\<not> endswith (str ''a.py'') (str ''.py'')
      \<or> (\<exists>err. open_read unparsable_env (str ''a.py'') = Inl err)
      \<or> (\<exists>src err. open_read unparsable_env (str ''a.py'') = Inr src
            \<and> ast_parse unparsable_env src = Inl err)"
    using unparsable_a by blast
  have f4: "\<not> endswith (str ''b.txt'') (str ''.py'')
      \<or> (\<exists>err. open_read fixture_env (str ''b.txt'') = Inl err)
      \<or> (\<exists>src err. open_read fixture_env (str ''b.txt'') = Inr src
            \<and> ast_parse fixture_env src = Inl err)"
    using b by blast
  have rq: "request_query ?req = PyStr (str ''TARGET'')"
    by (rule request_query_Str)
  note t1 = extraction_failure_local [OF rq dict_get_fixture_ctx
      run_git_grep_unreadable ma f1, of fixture_name]
  note t2 = extraction_failure_local [OF rq dict_get_fixture_ctx
      run_git_grep_unparsable ma f2, of fixture_name]
  note t4 = extraction_failure_local [OF rq dict_get_fixture_ctx
      run_git_grep_fixture mb f4, of fixture_name]
  from t1 have r1: "raised (next_turn unreadable_env fixture_name ?req fixture_ctx) = None"
    by (elim exE conjE)
  from t1 y1 have e1: "map included_defs
        (filter (\<lambda>sec. file_path sec = str ''a.py'') (sections bare_collection)) = [[]]"
    by (elim exE conjE) simp
  from t2 have r2: "raised (next_turn unparsable_env fixture_name ?req fixture_ctx) = None"
    by (elim exE conjE)
  from t4 have r4: "raised (next_turn fixture_env fixture_name ?req fixture_ctx) = None"
    by (elim exE conjE)
  from t4 y3 have e4: "map included_defs
        (filter (\<lambda>sec. file_path sec = str ''b.txt'') (sections fixture_collection)) = [[]]"
    by (elim exE conjE) simp
  from t2 y2 have "\<forall>e'.
              git_grep e' = git_grep unparsable_env \<and> ast_parse e' = ast_parse unparsable_env
              \<and> (\<forall>p'. p' \<noteq> str ''a.py'' \<longrightarrow> open_read e' p' = open_read unparsable_env p')
              \<longrightarrow> (\<exists>coll'.
                     yielded (next_turn e' fixture_name ?req fixture_ctx) =
                       [PromptStarted (str ''TARGET'') [(str ''query'', PyStr (str ''TARGET''))],
                        TurnEnd fixture_name coll']
                   \<and> raised (next_turn e' fixture_name ?req fixture_ctx) = None
                   \<and> filter (\<lambda>sec. file_path sec \<noteq> str ''a.py'') (sections coll') =
                       filter (\<lambda>sec. file_path sec \<noteq> str ''a.py'') (sections bare_collection))"
    by (elim exE conjE) simp
  then have "\<exists>coll'.
                     yielded (next_turn fixture_env fixture_name ?req fixture_ctx) =
                       [PromptStarted (str ''TARGET'') [(str ''query'', PyStr (str ''TARGET''))],
                        TurnEnd fixture_name coll']
                   \<and> raised (next_turn fixture_env fixture_name ?req fixture_ctx) = None
                   \<and> filter (\<lambda>sec. file_path sec \<noteq> str ''a.py'') (sections coll') =
                       filter (\<lambda>sec. file_path sec \<noteq> str ''a.py'') (sections bare_collection)"
    using same by (elim allE [of _ fixture_env] impE) assumption+
  with y3 have e3: "filter (\<lambda>sec. file_path sec \<noteq> str ''a.py'') (sections fixture_collection) =
       filter (\<lambda>sec. file_path sec \<noteq> str ''a.py'') (sections bare_collection)"
    by (elim exE conjE) simp
  from o y1 r1 unparsable_a y2 r2 e1 b y3 r4 e4 e3 show ?thesis
    by (intro conjI) simp_all
qed




text \<open>
  C10. An \<^verbatim>\<open>async def\<close> at the top level of a Python file contributes nothing to
  the file's \<open>included_defs\<close>: the result is made of the names before it and the
  names after it, and equals the result for the same file with the \<^verbatim>\<open>async def\<close>
  deleted.
\<close>

theorem async_def_omitted:
  assumes "endswith p (str ''.py'')" and "open_read e p = Inr src"
    and "ast_parse e src = Inr (pre @ AsyncFunctionDef nm b # post)"
  shows "fst (compute_included_defs e p) = top_level_defs pre @ top_level_defs post
       \<and> fst (compute_included_defs e p) =
           fst (compute_included_defs (e\<lparr>ast_parse := (ast_parse e)(src := Inr (pre @ post))\<rparr>) p)"
proof -
  let ?e = "e\<lparr>ast_parse := (ast_parse e)(src := Inr (pre @ post))\<rparr>"
  have "open_read ?e p = Inr src" and "ast_parse ?e src = Inr (pre @ post)"
    using assms(2) by simp_all
  then have "compute_included_defs ?e p = (top_level_defs (pre @ post), [Open p, Parse src])"
    using assms(1) by (rule compute_included_defs_parsed [rotated])
  moreover have "compute_included_defs e p =
      (top_level_defs (pre @ AsyncFunctionDef nm b # post), [Open p, Parse src])"
    using assms by (rule compute_included_defs_parsed)
  ultimately show ?thesis
    by (simp add: top_level_defs_append)
qed

theorem async_def_omitted_witness:
  "endswith (str ''a.py'') (str ''.py'')
   \<and> open_read fixture_env (str ''a.py'') = Inr fixture_src
   \<and> ast_parse fixture_env fixture_src =
       Inr ([FunctionDef (str ''foo'') [FunctionDef (str ''inner'') []]]
            @ AsyncFunctionDef (str ''fetch'') []
            # [OtherStmt [ClassDef (str ''Hidden'') []],
               ClassDef (str ''Bar'') [FunctionDef (str ''method'') []]])
   \<and> fst (compute_included_defs fixture_env (str ''a.py'')) = [str ''foo'', str ''Bar'']
   \<and> str ''fetch'' \<notin> set (fst (compute_included_defs fixture_env (str ''a.py'')))"
proof -
  have a: "endswith (str ''a.py'') (str ''.py'')"
    by (simp add: endswith_def str_def)
  have r: "open_read fixture_env (str ''a.py'') = Inr fixture_src"
    by (simp add: fixture_env_def)
  have s: "ast_parse fixture_env fixture_src =
       Inr ([FunctionDef (str ''foo'') [FunctionDef (str ''inner'') []]]
            @ AsyncFunctionDef (str ''fetch'') []
            # [OtherStmt [ClassDef (str ''Hidden'') []],
               ClassDef (str ''Bar'') [FunctionDef (str ''method'') []]])"
    by (simp add: fixture_env_def fixture_body_def)
  have n: "str ''fetch'' \<noteq> str ''foo''" "str ''fetch'' \<noteq> str ''Bar''"
    by (simp_all add: str_def)
  from async_def_omitted [OF a r s]
  have "fst (compute_included_defs fixture_env (str ''a.py'')) = [str ''foo'', str ''Bar'']"
    by simp
  with a r s n show ?thesis by simp
qed

text \<open>
  C8 says that every line of the raw search output is split on the colon into at most
  three parts, its content kept intact as the matched line. On the output line
  \<^verbatim>\<open>ff.txt:1:a:b<FF>c:d:e\<close> the call \<^verbatim>\<open>splitlines()\<close> of line 78 cuts the line at
  the form feed before it is split on the colon: the match of \<^verbatim>\<open>ff.txt\<close> loses the
  rest of its content, and the rest is parsed as a match of its own, for a file
  \<^verbatim>\<open>c\<close> that the search never named.
\<close>

theorem output_line_cut_at_form_feed:
  "subprocess_run formfeed_env (PyStr (str ''a'')) =
     Inr \<lparr>returncode = 0,
          stdout = str ''ff.txt:1:a:b'' @ [12] @ str ''c:d:e'' @ [10], stderr = []\<rparr>
   \<and> splitlines (str ''ff.txt:1:a:b'' @ [12] @ str ''c:d:e'' @ [10]) =
       [str ''ff.txt:1:a:b'', str ''c:d:e'']
   \<and> run_git_grep formfeed_env (PyStr (str ''a'')) =
       Inr [(str ''ff.txt'', str ''a:b''), (str ''c'', str ''e'')]"
  by (simp add: run_git_grep_def run_git_grep_try_def subprocess_run_def formfeed_env_def
      formfeed_stdout_def splitlines_def is_linebreak_def str_def numeral_2_eq_2 unpack3_def)



text \<open>
  C3, as stated: for every query string given to a turn, when the search yields no
  matches the turn returns a collection with no sections whose \<open>search_query\<close> is
  the input query string. On the fixture, the request \<^verbatim>\<open>foo\<close> with the context
  \<^verbatim>\<open>{"query": "nothing"}\<close> yields no matches, and the collection returned has
  \<open>search_query\<close> \<^verbatim>\<open>nothing\<close>: line 109 takes the search query from the request
  context, and the request is only echoed in the \<^verbatim>\<open>PromptStarted\<close> event.
\<close>

theorem search_query_not_the_request:
  "run_git_grep fixture_env (PyStr (str ''nothing'')) = Inr []
   \<and> next_turn fixture_env fixture_name (Str (str ''foo'')) quiet_ctx =
       \<lparr>yielded =
          [PromptStarted (str ''foo'') [(str ''query'', PyStr (str ''foo''))],
           TurnEnd fixture_name \<lparr>sections = [], search_query = str ''nothing''\<rparr>],
        raised = None,
        io_log = []\<rparr>
   \<and> str ''nothing'' \<noteq> str ''foo''"
proof -
  have "str ''nothing'' \<noteq> str ''foo''"
    by (simp add: str_def)
  then show ?thesis
    unfolding next_turn_PyStr [OF request_query_Str dict_get_quiet_ctx run_git_grep_quiet]
    by (simp add: run_git_grep_quiet)
qed

text \<open>
  C3, amended: for every turn whose request is a string, or a \<^verbatim>\<open>Prompt\<close> whose
  payload is a string, and whose request context holds a string under the key
  \<^verbatim>\<open>query\<close>: when the search for that string yields no matches the turn ends without
  an exception, opens no file, and yields a collection with no sections whose
  \<open>search_query\<close> is the string of the context.
\<close>

theorem no_match_empty_collection:
  assumes "request_query req = PyStr r"
    and "dict_get ctx (str ''query'') = PyStr q"
    and "run_git_grep e (PyStr q) = Inr []"
  shows "next_turn e sn req ctx =
     \<lparr>yielded =
        [PromptStarted r [(str ''query'', PyStr r)],
         TurnEnd sn \<lparr>sections = [], search_query = q\<rparr>],
      raised = None,
      io_log = []\<rparr>"
  unfolding next_turn_PyStr [OF assms] by simp

theorem no_match_empty_collection_witness:
  "request_query (Prompt (PyStr (str ''foo''))) = PyStr (str ''foo'')
   \<and> dict_get quiet_ctx (str ''query'') = PyStr (str ''nothing'')
   \<and> run_git_grep fixture_env (PyStr (str ''nothing'')) = Inr []
   \<and> next_turn fixture_env fixture_name (Prompt (PyStr (str ''foo''))) quiet_ctx =
       \<lparr>yielded =
          [PromptStarted (str ''foo'') [(str ''query'', PyStr (str ''foo''))],
           TurnEnd fixture_name \<lparr>sections = [], search_query = str ''nothing''\<rparr>],
        raised = None,
        io_log = []\<rparr>"
  using no_match_empty_collection [OF request_query_Prompt dict_get_quiet_ctx run_git_grep_quiet,
      of fixture_name]
    request_query_Prompt [of "PyStr (str ''foo'')"] dict_get_quiet_ctx run_git_grep_quiet
  by simp

text \<open>
  C2 says that the file of a path is opened and parsed once, however many matches the
  path has. On the fixture \<^verbatim>\<open>a.py\<close> has two matches and one section, and is opened
  and parsed twice: the test of line 118 compares the path with the sections themselves
  and never finds it, so only the test of line 133, after the extraction, keeps the
  second match out.
\<close>

theorem extraction_repeated_per_match:
  "run_git_grep fixture_env (PyStr (str ''TARGET'')) =
     Inr [(str ''a.py'', str ''x''), (str ''a.py'', str ''y:z''), (str ''b.txt'', str ''w'')]
   \<and> yielded (next_turn fixture_env fixture_name (Str (str ''TARGET'')) fixture_ctx) =
       [PromptStarted (str ''TARGET'') [(str ''query'', PyStr (str ''TARGET''))],
        TurnEnd fixture_name fixture_collection]
   \<and> map file_path (sections fixture_collection) = [str ''a.py'', str ''b.txt'']
   \<and> io_log (next_turn fixture_env fixture_name (Str (str ''TARGET'')) fixture_ctx) =
       [Open (str ''a.py''), Parse fixture_src, Open (str ''a.py''), Parse fixture_src]"
  by (simp add: run_git_grep_fixture next_turn_fixture fixture_collection_def)

end
